theory Spec2Isabelle
  imports Main "HOL-Library.Multiset" "HOL-Library.Char_ord" "HOL-Library.List_Lexorder"
begin

section \<open>Terramate: base revision, repository checks and the stack listing\<close>

subsection \<open>The git wrapper and the project (cmd/terramate/cli/project.go)\<close>

text \<open>
  A Go call \<^verbatim>\<open>v, err := f()\<close> returns a pair: the value and the error, \<open>None\<close>
  for \<^verbatim>\<open>nil\<close>. The package \<^verbatim>\<open>git\<close> that implements the wrapper is outside
  the verified sources, so the answers of its queries are the fields of a record: one
  observed state of the repository. An error is its message.
\<close>

type_synonym err = string

type_synonym 'a go_result = "'a \<times> err option"

record Remote =
  Name :: string
  Branches :: "string list"

record Ref =
  CommitID :: string

record Git =
  RevParse :: "string \<Rightarrow> string go_result"
  CurrentBranch :: "string go_result"
  IsAncestor :: "string \<Rightarrow> string \<Rightarrow> bool go_result"
  IsFirstParentAncestor :: "string \<Rightarrow> string \<Rightarrow> bool go_result"
  FindForkPoint :: "string \<Rightarrow> string \<Rightarrow> string go_result"
  MergeBase :: "string \<Rightarrow> string \<Rightarrow> string go_result"
  Remotes :: "Remote list go_result"
  FetchRemoteRev :: "string \<Rightarrow> string \<Rightarrow> Ref go_result"

record GitConfig =
  DefaultRemote :: string
  DefaultBranch :: string
  DefaultBranchBaseRef :: string

text \<open>
  The fields of \<^verbatim>\<open>project\<close> that the functions below read or write: the git block
  of the root configuration (what \<^verbatim>\<open>p.gitcfg()\<close> returns), the wrapper, and the two
  memoized commits of \<^verbatim>\<open>p.git\<close>.
\<close>

record project =
  gitcfg :: GitConfig
  git_wrapper :: Git
  git_headCommit :: string
  git_remoteDefaultBranchCommit :: string

definition remoteDefaultBranchRef :: "project \<Rightarrow> string" where
  "remoteDefaultBranchRef p =
     DefaultRemote (gitcfg p) @ ''/'' @ DefaultBranch (gitcfg p)"

text \<open>
  \<^verbatim>\<open>defaultBaseRev\<close>: every error of the five queries is discarded
  (\<^verbatim>\<open>headRev, _ := gw.RevParse("HEAD")\<close>), only the value is used; the function has
  no error result and no fatal exit.
\<close>

definition defaultBaseRev :: "project \<Rightarrow> string" where
  "defaultBaseRev p =
     (let cfg = gitcfg p;
          gw = git_wrapper p;
          remoteRef = remoteDefaultBranchRef p;
          headRev = fst (RevParse gw ''HEAD'');
          remoteDefaultRev = fst (RevParse gw remoteRef);
          isRemoteDefaultRev = (headRev \<noteq> '''' \<and> headRev = remoteDefaultRev);
          isRemoteDefaultRevAncestor = fst (IsAncestor gw ''HEAD'' remoteRef)
      in if \<not> isRemoteDefaultRev \<and> \<not> isRemoteDefaultRevAncestor then remoteRef
         else
           let branch = fst (CurrentBranch gw);
               isDefaultBranch = (branch \<noteq> '''' \<and> branch = DefaultBranch cfg);
               isEmptyPendingBranch = (isRemoteDefaultRev \<and> \<not> isDefaultBranch)
           in if isEmptyPendingBranch then remoteRef
              else if isRemoteDefaultRev then DefaultBranchBaseRef cfg
              else
                let isRemoteDefaultBranchAncestor =
                      fst (IsFirstParentAncestor gw remoteRef ''HEAD'')
                in if isRemoteDefaultBranchAncestor then DefaultBranchBaseRef cfg
                   else
                     let forkPoint = fst (FindForkPoint gw remoteRef ''HEAD'')
                     in if forkPoint \<noteq> '''' then forkPoint
                        else DefaultBranchBaseRef cfg)"

subsection \<open>Defaults of the git block\<close>

text \<open>
  The part of the configuration tree \<^verbatim>\<open>setDefaults\<close> walks: each block is a pointer
  that may be \<^verbatim>\<open>nil\<close>. The constants \<^verbatim>\<open>defaultRemote\<close>, \<^verbatim>\<open>defaultBranch\<close>,
  \<^verbatim>\<open>defaultBranchBaseRef\<close> and the constructor \<^verbatim>\<open>hcl.NewGitConfig\<close> are defined
  outside the verified sources; they are the fields of \<open>policy\<close>.
\<close>

record RootConfig =
  Git :: "GitConfig option"

record Terramate =
  Config :: "RootConfig option"

record Node =
  Terramate :: "Terramate option"

record policy =
  defaultRemote :: string
  defaultBranch :: string
  defaultBranchBaseRef :: string
  NewGitConfig :: GitConfig

definition setDefaults :: "policy \<Rightarrow> Node \<Rightarrow> Node" where
  "setDefaults pol cfg =
     (let tm = (case Terramate cfg of None \<Rightarrow> \<lparr>Config = None\<rparr> | Some t \<Rightarrow> t);
          rc = (case Config tm of None \<Rightarrow> \<lparr>Git = None\<rparr> | Some c \<Rightarrow> c);
          g0 = (case Git rc of None \<Rightarrow> NewGitConfig pol | Some g \<Rightarrow> g);
          g1 = (if DefaultBranchBaseRef g0 = ''''
                then g0\<lparr>DefaultBranchBaseRef := defaultBranchBaseRef pol\<rparr> else g0);
          g2 = (if DefaultBranch g1 = ''''
                then g1\<lparr>DefaultBranch := defaultBranch pol\<rparr> else g1);
          g3 = (if DefaultRemote g2 = ''''
                then g2\<lparr>DefaultRemote := defaultRemote pol\<rparr> else g2)
      in cfg\<lparr>Terramate := Some (tm\<lparr>Config := Some (rc\<lparr>Git := Some g3\<rparr>)\<rparr>)\<rparr>)"

text \<open>
  \<^verbatim>\<open>p.root.Tree().Node.Terramate.Config.Git\<close>: the path \<^verbatim>\<open>gitcfg()\<close> follows;
  \<open>None\<close> where a pointer on the path is \<^verbatim>\<open>nil\<close>.
\<close>

definition node_gitcfg :: "Node \<Rightarrow> GitConfig option" where
  "node_gitcfg cfg =
     (case Terramate cfg of
        None \<Rightarrow> None
      | Some tm \<Rightarrow> (case Config tm of None \<Rightarrow> None | Some rc \<Rightarrow> Git rc))"

subsection \<open>Memoized commits\<close>

text \<open>
  \<^verbatim>\<open>logger.Fatal()...Send()\<close> ends the process: the result \<open>Inl\<close> with the logged
  error. Otherwise the function returns its value and the project with the memo field
  written.
\<close>

definition headCommit :: "project \<Rightarrow> err + (string \<times> project)" where
  "headCommit p =
     (if git_headCommit p \<noteq> '''' then Inr (git_headCommit p, p)
      else case RevParse (git_wrapper p) ''HEAD'' of
             (val, Some e) \<Rightarrow> Inl e
           | (val, None) \<Rightarrow> Inr (val, p\<lparr>git_headCommit := val\<rparr>))"

definition remoteDefaultCommit :: "project \<Rightarrow> err + (string \<times> project)" where
  "remoteDefaultCommit p =
     (if git_remoteDefaultBranchCommit p \<noteq> ''''
      then Inr (git_remoteDefaultBranchCommit p, p)
      else case FetchRemoteRev (git_wrapper p) (DefaultRemote (gitcfg p))
                  (DefaultBranch (gitcfg p)) of
             (remoteRef, Some e) \<Rightarrow>
               Inl (''fetching remote commit of '' @ DefaultRemote (gitcfg p) @ ''/'' @
                    DefaultBranch (gitcfg p) @ '': '' @ e)
           | (remoteRef, None) \<Rightarrow>
               Inr (CommitID remoteRef,
                    p\<lparr>git_remoteDefaultBranchCommit := CommitID remoteRef\<rparr>))"

subsection \<open>Repository checks\<close>

text \<open>
  The errors the two checks return, one constructor per message:
  \<^item> \<open>RemotesQueryFailed r e\<close>: \<^verbatim>\<open>checking if remote %q exists: %v\<close>;
  \<^item> \<open>NoConfiguredRemote r\<close>: \<^verbatim>\<open>repository must have a configured %q remote\<close>;
  \<^item> \<open>NoDefaultBranch r b bs\<close>: \<^verbatim>\<open>remote %q has no default branch %q,branches:%v\<close>;
  \<^item> \<open>ErrCurrentHeadIsOutOfDate m\<close>: the error of that kind with message \<open>m\<close>.
\<close>

datatype error =
    RemotesQueryFailed string err
  | NoConfiguredRemote string
  | NoDefaultBranch string string "string list"
  | ErrCurrentHeadIsOutOfDate string

text \<open>
  \<^verbatim>\<open>checkDefaultRemote\<close>. The first loop keeps the first remote with the configured
  name; the message of a failed \<^verbatim>\<open>Remotes()\<close> names the constant \<^verbatim>\<open>defaultRemote\<close>.
\<close>

definition checkDefaultRemote :: "policy \<Rightarrow> project \<Rightarrow> error option" where
  "checkDefaultRemote pol p =
     (case Remotes (git_wrapper p) of
        (remotes, Some e) \<Rightarrow> Some (RemotesQueryFailed (defaultRemote pol) e)
      | (remotes, None) \<Rightarrow>
          (case find (\<lambda>remote. Name remote = DefaultRemote (gitcfg p)) remotes of
             None \<Rightarrow> Some (NoConfiguredRemote (DefaultRemote (gitcfg p)))
           | Some defRemote \<Rightarrow>
               if DefaultBranch (gitcfg p) \<in> set (Branches defRemote) then None
               else Some (NoDefaultBranch (DefaultRemote (gitcfg p))
                            (DefaultBranch (gitcfg p)) (Branches defRemote))))"

definition outOfDateErr :: error where
  "outOfDateErr =
     ErrCurrentHeadIsOutOfDate
       ''Please update the current branch with the latest changes from the default branch.''"

text \<open>
  \<^verbatim>\<open>checkRemoteDefaultBranchIsReachable\<close>, call by call: the two commits are read for
  the logger first, again as the arguments of \<^verbatim>\<open>MergeBase\<close>, and the remote default
  commit once more for the comparison.
\<close>

definition checkRemoteDefaultBranchIsReachable ::
  "project \<Rightarrow> err + (error option \<times> project)" where
  "checkRemoteDefaultBranchIsReachable p =
     (case headCommit p of Inl f \<Rightarrow> Inl f | Inr (h0, p1) \<Rightarrow>
      case remoteDefaultCommit p1 of Inl f \<Rightarrow> Inl f | Inr (c0, p2) \<Rightarrow>
      case headCommit p2 of Inl f \<Rightarrow> Inl f | Inr (h, p3) \<Rightarrow>
      case remoteDefaultCommit p3 of Inl f \<Rightarrow> Inl f | Inr (c, p4) \<Rightarrow>
      case MergeBase (git_wrapper p4) h c of
        (mergeBaseCommitID, Some e) \<Rightarrow> Inr (Some outOfDateErr, p4)
      | (mergeBaseCommitID, None) \<Rightarrow>
          (case remoteDefaultCommit p4 of Inl f \<Rightarrow> Inl f | Inr (c', p5) \<Rightarrow>
             if mergeBaseCommitID \<noteq> c' then Inr (Some outOfDateErr, p5)
             else Inr (None, p5)))"

subsection \<open>The decision procedure of the specification (section 4.1)\<close>

text \<open>
  The six cases in the words of the specification, over the answers the resolver
  consumes. A revision that could not be resolved is the empty string and is no commit:
  HEAD is at the remote default commit when HEAD resolves to a commit and the remote
  default ref resolves to the same one; the current branch is the default branch when
  there is a current branch name and it is the configured one.
\<close>

definition head_commit :: "project \<Rightarrow> string" where
  "head_commit p = fst (RevParse (git_wrapper p) ''HEAD'')"

definition remote_default_commit :: "project \<Rightarrow> string" where
  "remote_default_commit p = fst (RevParse (git_wrapper p) (remoteDefaultBranchRef p))"

definition head_equals_remote_default :: "project \<Rightarrow> bool" where
  "head_equals_remote_default p =
     (head_commit p \<noteq> '''' \<and> head_commit p = remote_default_commit p)"

definition head_is_ancestor_of_remote_default :: "project \<Rightarrow> bool" where
  "head_is_ancestor_of_remote_default p =
     fst (IsAncestor (git_wrapper p) ''HEAD'' (remoteDefaultBranchRef p))"

definition on_default_branch :: "project \<Rightarrow> bool" where
  "on_default_branch p =
     (fst (CurrentBranch (git_wrapper p)) \<noteq> '''' \<and>
      fst (CurrentBranch (git_wrapper p)) = DefaultBranch (gitcfg p))"

definition remote_default_is_first_parent_ancestor :: "project \<Rightarrow> bool" where
  "remote_default_is_first_parent_ancestor p =
     fst (IsFirstParentAncestor (git_wrapper p) (remoteDefaultBranchRef p) ''HEAD'')"

definition fork_point :: "project \<Rightarrow> string option" where
  "fork_point p =
     (let fp = fst (FindForkPoint (git_wrapper p) (remoteDefaultBranchRef p) ''HEAD'')
      in if fp = '''' then None else Some fp)"

definition six_case_procedure :: "project \<Rightarrow> string" where
  "six_case_procedure p =
     (if \<not> head_equals_remote_default p \<and> \<not> head_is_ancestor_of_remote_default p
        then remoteDefaultBranchRef p
      else if head_equals_remote_default p \<and> \<not> on_default_branch p
        then remoteDefaultBranchRef p
      else if head_equals_remote_default p \<and> on_default_branch p
        then DefaultBranchBaseRef (gitcfg p)
      else if remote_default_is_first_parent_ancestor p
        then DefaultBranchBaseRef (gitcfg p)
      else case fork_point p of
             Some fp \<Rightarrow> fp
           | None \<Rightarrow> DefaultBranchBaseRef (gitcfg p))"

subsection \<open>The remotes a check can see\<close>

text \<open>
  The repository's configured remotes as \<^verbatim>\<open>checkDefaultRemote\<close> learns them: none
  when the query failed. The default remote's entry is the first remote with the
  configured name.
\<close>

definition configured_remotes :: "project \<Rightarrow> Remote list" where
  "configured_remotes p =
     (case Remotes (git_wrapper p) of (remotes, None) \<Rightarrow> remotes | (remotes, Some e) \<Rightarrow> [])"

definition default_remote_entry :: "project \<Rightarrow> Remote option" where
  "default_remote_entry p =
     find (\<lambda>remote. Name remote = DefaultRemote (gitcfg p)) (configured_remotes p)"

subsection \<open>Failed queries\<close>

text \<open>
  A query failed when it returned an error. A Go function that returns an error returns
  the zero value of its result type with it (\<^verbatim>\<open>""\<close>, \<^verbatim>\<open>false\<close>); the wrapper's
  code is not among the sources, so \<open>failures_are_zero\<close> states this convention for the
  five queries \<^verbatim>\<open>defaultBaseRev\<close> makes, and theorems that need it assume it.
  \<open>with_negative_answers\<close> is the state in which each failed query has instead succeeded
  with the negative answer.
\<close>

definition query_failed :: "'a go_result \<Rightarrow> bool" where
  "query_failed r = (snd r \<noteq> None)"

definition zero_on_failure :: "'a \<Rightarrow> 'a go_result \<Rightarrow> bool" where
  "zero_on_failure z r = (if query_failed r then fst r = z else True)"

definition failures_are_zero :: "project \<Rightarrow> bool" where
  "failures_are_zero p =
     (let gw = git_wrapper p; remoteRef = remoteDefaultBranchRef p
      in zero_on_failure '''' (RevParse gw ''HEAD'') \<and>
         zero_on_failure '''' (RevParse gw remoteRef) \<and>
         zero_on_failure False (IsAncestor gw ''HEAD'' remoteRef) \<and>
         zero_on_failure '''' (CurrentBranch gw) \<and>
         zero_on_failure False (IsFirstParentAncestor gw remoteRef ''HEAD'') \<and>
         zero_on_failure '''' (FindForkPoint gw remoteRef ''HEAD''))"

definition negative_answer :: "'a \<Rightarrow> 'a go_result \<Rightarrow> 'a go_result" where
  "negative_answer z r = (if query_failed r then (z, None) else r)"

definition with_negative_answers :: "project \<Rightarrow> project" where
  "with_negative_answers p =
     (let gw = git_wrapper p
      in p\<lparr>git_wrapper :=
            gw\<lparr>RevParse := (\<lambda>r. negative_answer '''' (RevParse gw r)),
               CurrentBranch := negative_answer '''' (CurrentBranch gw),
               IsAncestor := (\<lambda>a b. negative_answer False (IsAncestor gw a b)),
               IsFirstParentAncestor :=
                 (\<lambda>a b. negative_answer False (IsFirstParentAncestor gw a b)),
               FindForkPoint := (\<lambda>a b. negative_answer '''' (FindForkPoint gw a b))\<rparr>\<rparr>)"

subsection \<open>Stack selection of the list command\<close>

text \<open>
  The code of the \<^verbatim>\<open>list\<close> command and of its status filter is not among the
  sources; only its end-to-end test \<^verbatim>\<open>TestCloudListUnhealthy\<close> is. The definitions of
  this subsection follow sections 3, 4.3, 4.4, 4.5, 6 and 7 of the specification.
\<close>

text \<open>
  Modelled from the spec: the data model of section 3. A stack has a repository-relative
  path, an optional \<open>metaID\<close> (empty: unidentified) and a set of tags. A remote status
  record has a numeric id, a \<open>metaID\<close>, a repository, a status (OK, Failed, Drifted and
  further values) and two informational sub-statuses.
\<close>

datatype Status = OK | Failed | Drifted | OtherStatus string

record Stack =
  path :: string
  metaID :: string
  tags :: "string set"

record RemoteStackStatus =
  record_id :: nat
  remote_metaID :: string
  repository :: string
  status :: Status
  deploymentStatus :: Status
  driftStatus :: Status

text \<open>
  Modelled from the spec: the filter criteria of section 3, an include-tag set, an
  exclude-tag set and the status filter value, \<open>None\<close> when no status flag is given.
\<close>

record Criteria =
  include_tags :: "string set"
  exclude_tags :: "string set"
  status_filter :: "string option"

text \<open>
  Modelled from the spec: the current repository of section 4.3, either a git-tracked
  remote with its normalized repository string or a filesystem-only pseudo-remote.
\<close>

datatype Repo = Tracked string | FilesystemOnly

text \<open>
  Modelled from the spec: the fatal errors of section 7 that the listing can end with,
  each with its message.
\<close>

datatype list_error =
    ConfigurationError string
  | UnsupportedRemoteError string
  | NetworkError string

text \<open>
  Modelled from the spec: the tag filter of section 4.4. A stack is selected iff its tags
  are a superset of the required values and none of its tags is excluded.
\<close>

definition TagFilter :: "Criteria \<Rightarrow> Stack list \<Rightarrow> Stack list" where
  "TagFilter c stacks =
     filter (\<lambda>s. include_tags c \<subseteq> tags s \<and> tags s \<inter> exclude_tags c = {}) stacks"

text \<open>
  Modelled from the spec: the lookup of section 4.3 from \<open>metaID\<close> to the remote status
  record, built from the records whose repository is the current normalized repository
  string, one insertion per record in the order received.
\<close>

definition build_lookup ::
  "string \<Rightarrow> RemoteStackStatus list \<Rightarrow> (string \<rightharpoonup> RemoteStackStatus)" where
  "build_lookup repo records =
     fold (\<lambda>r m. m(remote_metaID r \<mapsto> r)) (filter (\<lambda>r. repository r = repo) records)
       Map.empty"

text \<open>
  Modelled from the spec: the classification of section 4.3. A stack with an empty
  \<open>metaID\<close> is never unhealthy; one with a record is unhealthy iff the record's status
  is not OK; one without a record is healthy.
\<close>

definition unhealthy :: "(string \<rightharpoonup> RemoteStackStatus) \<Rightarrow> Stack \<Rightarrow> bool" where
  "unhealthy lookup s =
     (if metaID s = '''' then False
      else case lookup (metaID s) of
             Some r \<Rightarrow> status r \<noteq> OK
           | None \<Rightarrow> False)"

text \<open>
  Modelled from the spec: the output of the health filter of section 4.3, the input
  stacks classified unhealthy, in their relative order.
\<close>

definition CloudHealthFilter ::
  "string \<Rightarrow> RemoteStackStatus list \<Rightarrow> Stack list \<Rightarrow> Stack list" where
  "CloudHealthFilter repo records stacks =
     filter (unhealthy (build_lookup repo records)) stacks"

text \<open>
  Modelled from the spec: the two preconditions of section 4.3, checked in the order
  given there (the test \<open>only unhealthy filter is permitted\<close> runs against a filesystem
  remote and expects the first message).
\<close>

definition check_status_filter :: "string \<Rightarrow> Repo \<Rightarrow> list_error option" where
  "check_status_filter v repo =
     (if v \<noteq> ''unhealthy'' then Some (ConfigurationError ''only unhealthy filter allowed'')
      else case repo of
             FilesystemOnly \<Rightarrow>
               Some (UnsupportedRemoteError
                 ''unhealthy status filter does not work with filesystem based remotes'')
           | Tracked r \<Rightarrow> None)"

text \<open>
  Modelled from the spec: the orchestration of section 4.5. The tag filter runs first;
  with a status flag the preconditions are checked before the status source is asked;
  a failed fetch is a fatal network error; the survivors are sorted by path. The status
  source is its answer, were it asked: an error or the list of records. \<open>fetched\<close>
  tells whether it was asked.
\<close>

record selection =
  outcome :: "list_error + Stack list"
  fetched :: bool

definition StackSelector ::
  "Criteria \<Rightarrow> Repo \<Rightarrow> (err + RemoteStackStatus list) \<Rightarrow> Stack list \<Rightarrow> selection" where
  "StackSelector c repo cloud stacks =
     (let tagged = TagFilter c stacks
      in case status_filter c of
           None \<Rightarrow> \<lparr>outcome = Inr (sort_key path tagged), fetched = False\<rparr>
         | Some v \<Rightarrow>
             (case check_status_filter v repo of
                Some e \<Rightarrow> \<lparr>outcome = Inl e, fetched = False\<rparr>
              | None \<Rightarrow>
                  (case cloud of
                     Inl e \<Rightarrow> \<lparr>outcome = Inl (NetworkError e), fetched = True\<rparr>
                   | Inr records \<Rightarrow>
                       \<lparr>outcome =
                          Inr (sort_key path
                                (CloudHealthFilter
                                  (case repo of Tracked r \<Rightarrow> r | FilesystemOnly \<Rightarrow> '''')
                                  records tagged)),
                        fetched = True\<rparr>)))"

text \<open>
  Modelled from the spec: the CLI surface of section 6. Exit code 0 with the sorted
  paths on standard output, each followed by a newline; exit code 1 with the message on
  standard error and nothing on standard output.
\<close>

record run_result =
  exit_status :: nat
  stdout :: string
  stderr :: string

definition error_message :: "list_error \<Rightarrow> string" where
  "error_message e =
     (case e of ConfigurationError m \<Rightarrow> m | UnsupportedRemoteError m \<Rightarrow> m
      | NetworkError m \<Rightarrow> m)"

definition list_command ::
  "Criteria \<Rightarrow> Repo \<Rightarrow> (err + RemoteStackStatus list) \<Rightarrow> Stack list \<Rightarrow> run_result" where
  "list_command c repo cloud stacks =
     (case outcome (StackSelector c repo cloud stacks) of
        Inr selected \<Rightarrow>
          \<lparr>exit_status = 0, stdout = concat (map (\<lambda>s. path s @ [CHR 0x0A]) selected),
           stderr = ''''\<rparr>
      | Inl e \<Rightarrow> \<lparr>exit_status = 1, stdout = '''', stderr = error_message e\<rparr>)"


definition no_filter :: Criteria where
  "no_filter = \<lparr>include_tags = {}, exclude_tags = {}, status_filter = None\<rparr>"

definition unhealthy_filter :: Criteria where
  "unhealthy_filter =
     \<lparr>include_tags = {}, exclude_tags = {}, status_filter = Some ''unhealthy''\<rparr>"

subsection \<open>The layouts of the end-to-end test\<close>

definition s1 :: Stack where
  "s1 = \<lparr>path = ''s1'', metaID = ''s1'', tags = {}\<rparr>"

definition s2 :: Stack where
  "s2 = \<lparr>path = ''s2'', metaID = ''s2'', tags = {}\<rparr>"

definition stack_without_id :: Stack where
  "stack_without_id = \<lparr>path = ''stack-without-id'', metaID = '''', tags = {}\<rparr>"

definition s1_failed :: RemoteStackStatus where
  "s1_failed =
     \<lparr>record_id = 1, remote_metaID = ''s1'',
      repository = ''github.com/terramate-io/terramate'', status = Failed,
      deploymentStatus = Failed, driftStatus = OK\<rparr>"

definition s2_drifted :: RemoteStackStatus where
  "s2_drifted =
     \<lparr>record_id = 2, remote_metaID = ''s2'',
      repository = ''github.com/terramate-io/terramate'', status = Drifted,
      deploymentStatus = OK, driftStatus = Drifted\<rparr>"



definition this_repo :: Repo where
  "this_repo = Tracked ''github.com/terramate-io/terramate''"

subsection \<open>Concrete repositories\<close>

definition origin_main :: GitConfig where
  "origin_main =
     \<lparr>DefaultRemote = ''origin'', DefaultBranch = ''main'', DefaultBranchBaseRef = ''HEAD^''\<rparr>"

text \<open>A wrapper whose every query fails, each with the zero value of its result type.\<close>

definition failing_git :: Git where
  "failing_git =
     \<lparr>RevParse = (\<lambda>_. ('''', Some ''fatal: bad revision'')),
      CurrentBranch = ('''', Some ''fatal: not a git repository''),
      IsAncestor = (\<lambda>_ _. (False, Some ''fatal: bad revision'')),
      IsFirstParentAncestor = (\<lambda>_ _. (False, Some ''fatal: bad revision'')),
      FindForkPoint = (\<lambda>_ _. ('''', Some ''fatal: bad revision'')),
      MergeBase = (\<lambda>_ _. ('''', Some ''fatal: bad revision'')),
      Remotes = ([], Some ''fatal: not a git repository''),
      FetchRemoteRev = (\<lambda>_ _. (\<lparr>CommitID = ''''\<rparr>, Some ''fatal: no remote''))\<rparr>"

text \<open>
  A feature branch \<open>feature\<close> at commit \<open>c2\<close>, one commit ahead of \<open>origin/main\<close>
  at \<open>c1\<close>, which is also its fork point.
\<close>

definition feature_git :: Git where
  "feature_git =
     \<lparr>RevParse = (\<lambda>r. if r = ''HEAD'' then (''c2'', None)
                       else if r = ''origin/main'' then (''c1'', None)
                       else ('''', Some ''fatal: bad revision'')),
      CurrentBranch = (''feature'', None),
      IsAncestor = (\<lambda>a b. (a = b, None)),
      IsFirstParentAncestor = (\<lambda>a b. (a = ''origin/main'' \<and> b = ''HEAD'', None)),
      FindForkPoint = (\<lambda>_ _. (''c1'', None)),
      MergeBase = (\<lambda>_ _. (''c1'', None)),
      Remotes = ([\<lparr>Name = ''origin'', Branches = [''main'', ''feature'']\<rparr>], None),
      FetchRemoteRev = (\<lambda>_ _. (\<lparr>CommitID = ''c1''\<rparr>, None))\<rparr>"

text \<open>
  HEAD at \<open>c2\<close>, a commit of a branch that forked from the default branch at \<open>c1\<close>
  and was merged since; \<open>origin/main\<close> is at \<open>c3\<close>. The parameter is the answer of
  the \<^verbatim>\<open>IsAncestor\<close> probe.
\<close>

definition historic_git :: "bool go_result \<Rightarrow> Git" where
  "historic_git probe =
     \<lparr>RevParse = (\<lambda>r. if r = ''HEAD'' then (''c2'', None)
                       else if r = ''origin/main'' then (''c3'', None)
                       else ('''', Some ''fatal: bad revision'')),
      CurrentBranch = ('''', None),
      IsAncestor = (\<lambda>_ _. probe),
      IsFirstParentAncestor = (\<lambda>_ _. (False, None)),
      FindForkPoint = (\<lambda>_ _. (''c1'', None)),
      MergeBase = (\<lambda>_ _. (''c2'', None)),
      Remotes = ([\<lparr>Name = ''origin'', Branches = [''main'']\<rparr>], None),
      FetchRemoteRev = (\<lambda>_ _. (\<lparr>CommitID = ''c3''\<rparr>, None))\<rparr>"

definition probe_error :: "bool go_result" where
  "probe_error = (False, Some ''exit status 128'')"

definition upstream_trunk :: GitConfig where
  "upstream_trunk =
     \<lparr>DefaultRemote = ''upstream'', DefaultBranch = ''trunk'',
      DefaultBranchBaseRef = ''HEAD^''\<rparr>"

definition origin_policy :: policy where
  "origin_policy =
     \<lparr>defaultRemote = ''origin'', defaultBranch = ''main'',
      defaultBranchBaseRef = ''HEAD^'', NewGitConfig = origin_main\<rparr>"

text \<open>The feature branch again, with the remote unreachable.\<close>

definition offline_git :: Git where
  "offline_git =
     feature_git\<lparr>FetchRemoteRev :=
       (\<lambda>_ _. (\<lparr>CommitID = ''''\<rparr>, Some ''could not resolve host''))\<rparr>"

definition origin_develop :: GitConfig where
  "origin_develop =
     \<lparr>DefaultRemote = ''origin'', DefaultBranch = ''develop'',
      DefaultBranchBaseRef = ''HEAD^''\<rparr>"

definition mk_project :: "GitConfig \<Rightarrow> Git \<Rightarrow> project" where
  "mk_project cfg gw =
     \<lparr>gitcfg = cfg, git_wrapper = gw, git_headCommit = '''',
      git_remoteDefaultBranchCommit = ''''\<rparr>"

section \<open>Theorems\<close>

subsection \<open>Revision resolution\<close>

text \<open>
  C1. The revision resolver \<^verbatim>\<open>defaultBaseRev\<close> implements the six-case decision
  procedure, the cases tried in order and the first matching one deciding: (1) HEAD is
  not at the remote default commit and is not an ancestor of the remote default ref: the
  remote default ref; (2) HEAD is at the remote default commit and the current branch is
  not the default branch: the remote default ref; (3) HEAD is at the remote default
  commit on the default branch: the configured base ref; (4) the remote default ref is a
  first-parent ancestor of HEAD: the base ref; (5) there is a fork point: that commit;
  (6) otherwise the base ref. HEAD is at the remote default commit when it resolves to
  a commit and that commit is the remote default one; a revision that does not resolve
  (the empty string) is no commit, and an empty branch name is no branch.
\<close>

theorem defaultBaseRev_six_cases:
  "defaultBaseRev p = six_case_procedure p"
  unfolding defaultBaseRev_def six_case_procedure_def head_equals_remote_default_def
    head_commit_def remote_default_commit_def head_is_ancestor_of_remote_default_def
    on_default_branch_def remote_default_is_first_parent_ancestor_def fork_point_def
  by (auto simp: Let_def)

text \<open>
  Where HEAD resolves to a commit and a default branch is configured, the two conditions
  of the procedure are plain equalities of the observed values.
\<close>

lemma six_case_conditions_when_resolved:
  assumes "head_commit p \<noteq> ''''" and "DefaultBranch (gitcfg p) \<noteq> ''''"
  shows "head_equals_remote_default p \<longleftrightarrow> head_commit p = remote_default_commit p"
    and "on_default_branch p \<longleftrightarrow>
           fst (CurrentBranch (git_wrapper p)) = DefaultBranch (gitcfg p)"
  using assms by (auto simp: head_equals_remote_default_def on_default_branch_def)

lemma setDefaults_fills:
  assumes "defaultRemote pol \<noteq> ''''" "defaultBranch pol \<noteq> ''''"
    "defaultBranchBaseRef pol \<noteq> ''''"
  shows "\<exists>g. node_gitcfg (setDefaults pol cfg) = Some g \<and> DefaultRemote g \<noteq> '''' \<and>
           DefaultBranch g \<noteq> '''' \<and> DefaultBranchBaseRef g \<noteq> ''''"
  using assms by (simp add: setDefaults_def node_gitcfg_def Let_def)

lemma remoteDefaultBranchRef_nonempty: "remoteDefaultBranchRef p \<noteq> ''''"
  by (simp add: remoteDefaultBranchRef_def)

text \<open>
  C9. When the configured git defaults (\<^verbatim>\<open>DefaultRemote\<close>, \<^verbatim>\<open>DefaultBranch\<close>,
  \<^verbatim>\<open>DefaultBranchBaseRef\<close>) are non-empty, as they are once \<^verbatim>\<open>setDefaults\<close> has
  filled them from non-empty policy defaults (\<open>setDefaults_fills\<close>), the revision
  resolver never returns the empty string: each branch yields the remote default ref,
  the base ref or a non-empty fork point.
\<close>

theorem defaultBaseRev_nonempty:
  assumes "DefaultRemote (gitcfg p) \<noteq> ''''"
    and "DefaultBranch (gitcfg p) \<noteq> ''''"
    and "DefaultBranchBaseRef (gitcfg p) \<noteq> ''''"
  shows "defaultBaseRev p \<noteq> ''''"
proof -
  have ref: "remoteDefaultBranchRef p \<noteq> ''''"
    by (rule remoteDefaultBranchRef_nonempty)
  show ?thesis
    unfolding defaultBaseRev_def Let_def
    using ref assms(3) by (simp split: if_splits)
qed

theorem defaultBaseRev_nonempty_witness:
  "DefaultRemote (gitcfg (mk_project origin_main feature_git)) \<noteq> '''' \<and>
   DefaultBranch (gitcfg (mk_project origin_main feature_git)) \<noteq> '''' \<and>
   DefaultBranchBaseRef (gitcfg (mk_project origin_main feature_git)) \<noteq> '''' \<and>
   defaultBaseRev (mk_project origin_main feature_git) \<noteq> ''''"
  using defaultBaseRev_nonempty [of "mk_project origin_main feature_git"]
  by (simp add: mk_project_def origin_main_def)

text \<open>
  C10. In every git state where the probe \<^verbatim>\<open>IsAncestor("HEAD", remote default ref)\<close>
  returns an error (with \<^verbatim>\<open>false\<close>, and so is read as false) while HEAD's commit is
  absent or differs from the remote default commit, \<^verbatim>\<open>defaultBaseRev\<close> returns the
  remote default branch ref (case 1), whatever the configured base ref is.
\<close>

theorem failed_ancestry_probe_selects_case_1:
  assumes "IsAncestor (git_wrapper p) ''HEAD'' (remoteDefaultBranchRef p) = (False, Some e)"
    and "head_commit p = '''' \<or> head_commit p \<noteq> remote_default_commit p"
  shows "defaultBaseRev p = remoteDefaultBranchRef p"
  using assms
  unfolding defaultBaseRev_def head_commit_def remote_default_commit_def Let_def
  by auto

theorem failed_ancestry_probe_selects_case_1_witness:
  "IsAncestor (git_wrapper (mk_project origin_main (historic_git probe_error))) ''HEAD''
     (remoteDefaultBranchRef (mk_project origin_main (historic_git probe_error)))
     = (False, Some ''exit status 128'') \<and>
   head_commit (mk_project origin_main (historic_git probe_error)) = ''c2'' \<and>
   remote_default_commit (mk_project origin_main (historic_git probe_error)) = ''c3'' \<and>
   defaultBaseRev (mk_project origin_main (historic_git probe_error)) = ''origin/main'' \<and>
   DefaultBranchBaseRef origin_main = ''HEAD^''"
  using failed_ancestry_probe_selects_case_1
    [of "mk_project origin_main (historic_git probe_error)" "''exit status 128''"]
  by (simp add: mk_project_def origin_main_def historic_git_def probe_error_def
      remoteDefaultBranchRef_def head_commit_def remote_default_commit_def)

text \<open>
  C3 (as stated). Revision resolution never aborts the command: each failing query of
  \<^verbatim>\<open>defaultBaseRev\<close> is read as the negative answer, and the algorithm degrades
  toward the fallback base ref. The last part fails: with the ancestry probe failing on a
  commit of a merged branch, and also with every query failing, the result is the remote
  default branch ref \<open>origin/main\<close>, not the configured base ref \<open>HEAD^\<close>.
\<close>

theorem failed_queries_fallback_counterexample:
  "query_failed (IsAncestor (historic_git probe_error) ''HEAD'' ''origin/main'') \<and>
   defaultBaseRev (mk_project origin_main (historic_git (True, None))) = ''c1'' \<and>
   defaultBaseRev (mk_project origin_main (historic_git probe_error)) = ''origin/main'' \<and>
   defaultBaseRev (mk_project origin_main failing_git) = ''origin/main'' \<and>
   DefaultBranchBaseRef (gitcfg (mk_project origin_main failing_git)) = ''HEAD^''"
  by (simp add: defaultBaseRev_def remoteDefaultBranchRef_def mk_project_def
      origin_main_def historic_git_def failing_git_def probe_error_def query_failed_def)

text \<open>
  C3 (amended). For every observed git state in which failed queries carry the zero
  value, \<^verbatim>\<open>defaultBaseRev\<close> returns a revision without propagating an error, and it is
  the revision it returns when each failed query has instead succeeded with the negative
  answer (empty revision, empty branch name, false, no fork point). Where that leads
  depends on the query: a failed ancestry probe gives the remote default branch ref,
  unless HEAD is at the remote default commit on the default branch, where it gives the
  base ref; a failed fork-point query gives the remote default branch ref or the base
  ref, never a fork point.
\<close>

theorem defaultBaseRev_failed_queries:
  assumes "failures_are_zero p"
  shows "defaultBaseRev p = defaultBaseRev (with_negative_answers p) \<and>
    (query_failed (IsAncestor (git_wrapper p) ''HEAD'' (remoteDefaultBranchRef p)) \<longrightarrow>
       defaultBaseRev p =
         (if head_equals_remote_default p \<and> on_default_branch p
          then DefaultBranchBaseRef (gitcfg p) else remoteDefaultBranchRef p)) \<and>
    (query_failed (FindForkPoint (git_wrapper p) (remoteDefaultBranchRef p) ''HEAD'') \<longrightarrow>
       defaultBaseRev p = remoteDefaultBranchRef p \<or>
       defaultBaseRev p = DefaultBranchBaseRef (gitcfg p))"
proof (intro conjI impI)
  let ?q = "with_negative_answers p"
  let ?r = "remoteDefaultBranchRef p"
  have fst_neg: "\<And>z r. zero_on_failure z r \<Longrightarrow> fst (negative_answer z r) = fst r"
    by (simp add: zero_on_failure_def negative_answer_def split: if_splits)
  from assms have z:
    "zero_on_failure '''' (RevParse (git_wrapper p) ''HEAD'')"
    "zero_on_failure '''' (RevParse (git_wrapper p) ?r)"
    "zero_on_failure False (IsAncestor (git_wrapper p) ''HEAD'' ?r)"
    "zero_on_failure '''' (CurrentBranch (git_wrapper p))"
    "zero_on_failure False (IsFirstParentAncestor (git_wrapper p) ?r ''HEAD'')"
    "zero_on_failure '''' (FindForkPoint (git_wrapper p) ?r ''HEAD'')"
    by (simp_all add: failures_are_zero_def Let_def)
  have cfg: "gitcfg ?q = gitcfg p"
    by (simp add: with_negative_answers_def Let_def)
  have ref: "remoteDefaultBranchRef ?q = ?r"
    by (simp add: remoteDefaultBranchRef_def cfg)
  have q:
    "fst (RevParse (git_wrapper ?q) ''HEAD'') = fst (RevParse (git_wrapper p) ''HEAD'')"
    "fst (RevParse (git_wrapper ?q) ?r) = fst (RevParse (git_wrapper p) ?r)"
    "fst (IsAncestor (git_wrapper ?q) ''HEAD'' ?r) = fst (IsAncestor (git_wrapper p) ''HEAD'' ?r)"
    "fst (CurrentBranch (git_wrapper ?q)) = fst (CurrentBranch (git_wrapper p))"
    "fst (IsFirstParentAncestor (git_wrapper ?q) ?r ''HEAD'')
       = fst (IsFirstParentAncestor (git_wrapper p) ?r ''HEAD'')"
    "fst (FindForkPoint (git_wrapper ?q) ?r ''HEAD'')
       = fst (FindForkPoint (git_wrapper p) ?r ''HEAD'')"
    using z by (simp_all add: with_negative_answers_def Let_def fst_neg)
  show "defaultBaseRev p = defaultBaseRev ?q"
    by (simp only: defaultBaseRev_def Let_def ref cfg q)
next
  assume "query_failed (IsAncestor (git_wrapper p) ''HEAD'' (remoteDefaultBranchRef p))"
  with assms have "\<not> fst (IsAncestor (git_wrapper p) ''HEAD'' (remoteDefaultBranchRef p))"
    by (simp add: failures_are_zero_def zero_on_failure_def Let_def)
  then show "defaultBaseRev p =
      (if head_equals_remote_default p \<and> on_default_branch p
       then DefaultBranchBaseRef (gitcfg p) else remoteDefaultBranchRef p)"
    unfolding defaultBaseRev_def head_equals_remote_default_def head_commit_def
      remote_default_commit_def on_default_branch_def
    by (auto simp: Let_def)
next
  assume "query_failed (FindForkPoint (git_wrapper p) (remoteDefaultBranchRef p) ''HEAD'')"
  with assms have "fst (FindForkPoint (git_wrapper p) (remoteDefaultBranchRef p) ''HEAD'') = ''''"
    by (simp add: failures_are_zero_def zero_on_failure_def Let_def)
  then show "defaultBaseRev p = remoteDefaultBranchRef p \<or>
      defaultBaseRev p = DefaultBranchBaseRef (gitcfg p)"
    unfolding defaultBaseRev_def by (simp add: Let_def)
qed

theorem defaultBaseRev_failed_queries_witness:
  "failures_are_zero (mk_project origin_main (historic_git probe_error)) \<and>
   query_failed (IsAncestor (git_wrapper (mk_project origin_main (historic_git probe_error)))
     ''HEAD'' (remoteDefaultBranchRef (mk_project origin_main (historic_git probe_error)))) \<and>
   defaultBaseRev (mk_project origin_main (historic_git probe_error)) =
     defaultBaseRev (with_negative_answers (mk_project origin_main (historic_git probe_error))) \<and>
   defaultBaseRev (mk_project origin_main (historic_git probe_error)) = ''origin/main''"
proof -
  have zero: "failures_are_zero (mk_project origin_main (historic_git probe_error))"
    by (simp add: failures_are_zero_def zero_on_failure_def query_failed_def
        mk_project_def historic_git_def probe_error_def Let_def)
  have failed: "query_failed
      (IsAncestor (git_wrapper (mk_project origin_main (historic_git probe_error)))
        ''HEAD'' (remoteDefaultBranchRef (mk_project origin_main (historic_git probe_error))))"
    by (simp add: query_failed_def mk_project_def historic_git_def probe_error_def)
  have not_at_default:
    "\<not> head_equals_remote_default (mk_project origin_main (historic_git probe_error))"
    by (simp add: head_equals_remote_default_def head_commit_def remote_default_commit_def
        mk_project_def historic_git_def origin_main_def remoteDefaultBranchRef_def)
  have ref: "remoteDefaultBranchRef (mk_project origin_main (historic_git probe_error))
      = ''origin/main''"
    by (simp add: remoteDefaultBranchRef_def mk_project_def origin_main_def)
  note all_parts = defaultBaseRev_failed_queries [OF zero]
  have same: "defaultBaseRev (mk_project origin_main (historic_git probe_error)) =
      defaultBaseRev (with_negative_answers (mk_project origin_main (historic_git probe_error)))"
    using all_parts by (rule conjunct1)
  have result: "defaultBaseRev (mk_project origin_main (historic_git probe_error))
      = ''origin/main''"
    using all_parts [THEN conjunct2, THEN conjunct1] failed not_at_default ref by simp
  from zero failed same result show ?thesis by blast
qed

subsection \<open>Repository checks\<close>

lemma default_remote_entry_None:
  "default_remote_entry p = None \<longleftrightarrow>
     DefaultRemote (gitcfg p) \<notin> Name ` set (configured_remotes p)"
  by (force simp: default_remote_entry_def find_None_iff)

text \<open>
  C7 (as stated). On failure \<^verbatim>\<open>checkDefaultRemote\<close> returns an error naming the missing
  remote, or naming the missing branch and listing the remote's branches. It fails: when
  the \<^verbatim>\<open>Remotes()\<close> query itself fails the error is a third one, which wraps the
  query's error; with the remote \<open>upstream\<close> configured it names \<open>origin\<close>.
\<close>

theorem checkDefaultRemote_query_failure_counterexample:
  "DefaultRemote (gitcfg (mk_project upstream_trunk failing_git)) = ''upstream'' \<and>
   checkDefaultRemote origin_policy (mk_project upstream_trunk failing_git)
     = Some (RemotesQueryFailed ''origin'' ''fatal: not a git repository'') \<and>
   checkDefaultRemote origin_policy (mk_project upstream_trunk failing_git)
     \<noteq> Some (NoConfiguredRemote ''upstream'') \<and>
   checkDefaultRemote origin_policy (mk_project origin_main failing_git)
     = Some (RemotesQueryFailed ''origin'' ''fatal: not a git repository'')"
  by (simp add: checkDefaultRemote_def mk_project_def upstream_trunk_def origin_main_def
      failing_git_def origin_policy_def)

text \<open>
  C7 (amended). \<^verbatim>\<open>checkDefaultRemote\<close> succeeds iff the configured default remote
  appears among the repository's configured remotes and the configured default branch
  appears among that remote's known branches. On failure it returns a descriptive error:
  one naming the missing remote when the remotes were listed and none has the configured
  name; one naming the remote and the missing branch and listing the branches present on
  that remote; and, when the remotes could not be listed, one that wraps the error of
  that query.
\<close>

theorem checkDefaultRemote_outcomes:
  "(checkDefaultRemote pol p = None \<longleftrightarrow>
      (\<exists>r. default_remote_entry p = Some r \<and> DefaultBranch (gitcfg p) \<in> set (Branches r))) \<and>
   (\<not> query_failed (Remotes (git_wrapper p)) \<and> default_remote_entry p = None \<longrightarrow>
      checkDefaultRemote pol p = Some (NoConfiguredRemote (DefaultRemote (gitcfg p)))) \<and>
   (\<forall>r. default_remote_entry p = Some r \<and> DefaultBranch (gitcfg p) \<notin> set (Branches r) \<longrightarrow>
      checkDefaultRemote pol p =
        Some (NoDefaultBranch (DefaultRemote (gitcfg p)) (DefaultBranch (gitcfg p))
               (Branches r))) \<and>
   (\<forall>e. snd (Remotes (git_wrapper p)) = Some e \<longrightarrow>
      (\<exists>name. checkDefaultRemote pol p = Some (RemotesQueryFailed name e)))"
proof (cases "Remotes (git_wrapper p)")
  case (Pair remotes e)
  show ?thesis
  proof (cases e)
    case None
    with Pair show ?thesis
      by (auto simp: checkDefaultRemote_def default_remote_entry_def configured_remotes_def
          query_failed_def split: option.splits)
  next
    case (Some msg)
    with Pair show ?thesis
      by (simp add: checkDefaultRemote_def default_remote_entry_def configured_remotes_def
          query_failed_def)
  qed
qed

theorem checkDefaultRemote_outcomes_witness:
  "default_remote_entry (mk_project origin_main feature_git)
     = Some \<lparr>Name = ''origin'', Branches = [''main'', ''feature'']\<rparr> \<and>
   checkDefaultRemote origin_policy (mk_project origin_main feature_git) = None \<and>
   default_remote_entry (mk_project upstream_trunk feature_git) = None \<and>
   checkDefaultRemote origin_policy (mk_project upstream_trunk feature_git)
     = Some (NoConfiguredRemote ''upstream'') \<and>
   checkDefaultRemote origin_policy (mk_project origin_develop feature_git)
     = Some (NoDefaultBranch ''origin'' ''develop'' [''main'', ''feature''])"
proof -
  have entry: "default_remote_entry (mk_project origin_main feature_git)
      = Some \<lparr>Name = ''origin'', Branches = [''main'', ''feature'']\<rparr>"
    by (simp add: default_remote_entry_def configured_remotes_def mk_project_def
        origin_main_def feature_git_def)
  have found: "checkDefaultRemote origin_policy (mk_project origin_main feature_git) = None"
    using checkDefaultRemote_outcomes
      [of origin_policy "mk_project origin_main feature_git", THEN conjunct1] entry
    by (simp add: mk_project_def origin_main_def)
  have no_entry: "default_remote_entry (mk_project upstream_trunk feature_git) = None"
    by (simp add: default_remote_entry_def configured_remotes_def mk_project_def
        upstream_trunk_def feature_git_def)
  have listed: "\<not> query_failed (Remotes (git_wrapper (mk_project upstream_trunk feature_git)))"
    by (simp add: query_failed_def mk_project_def feature_git_def)
  have no_remote: "checkDefaultRemote origin_policy (mk_project upstream_trunk feature_git)
      = Some (NoConfiguredRemote ''upstream'')"
    using checkDefaultRemote_outcomes
      [of origin_policy "mk_project upstream_trunk feature_git",
        THEN conjunct2, THEN conjunct1] no_entry listed
    by (simp add: mk_project_def upstream_trunk_def)
  have entry': "default_remote_entry (mk_project origin_develop feature_git)
      = Some \<lparr>Name = ''origin'', Branches = [''main'', ''feature'']\<rparr>"
    by (simp add: default_remote_entry_def configured_remotes_def mk_project_def
        origin_develop_def feature_git_def)
  have no_branch: "checkDefaultRemote origin_policy (mk_project origin_develop feature_git)
      = Some (NoDefaultBranch ''origin'' ''develop'' [''main'', ''feature''])"
    using checkDefaultRemote_outcomes
      [of origin_policy "mk_project origin_develop feature_git",
        THEN conjunct2, THEN conjunct2, THEN conjunct1, rule_format,
        of "\<lparr>Name = ''origin'', Branches = [''main'', ''feature'']\<rparr>"] entry'
    by (simp add: mk_project_def origin_develop_def)
  from entry found no_entry no_remote no_branch show ?thesis by blast
qed

lemma headCommit_again:
  "headCommit p = Inr (h, p1) \<Longrightarrow>
     headCommit p1 = Inr (h, p1) \<and> git_wrapper p1 = git_wrapper p \<and> gitcfg p1 = gitcfg p \<and>
     git_remoteDefaultBranchCommit p1 = git_remoteDefaultBranchCommit p \<and>
     git_headCommit p1 = h"
  by (auto simp: headCommit_def split: if_splits prod.splits option.splits)

lemma remoteDefaultCommit_again:
  "remoteDefaultCommit p = Inr (c, p1) \<Longrightarrow>
     remoteDefaultCommit p1 = Inr (c, p1) \<and> git_wrapper p1 = git_wrapper p \<and>
     gitcfg p1 = gitcfg p \<and> git_headCommit p1 = git_headCommit p"
  by (auto simp: remoteDefaultCommit_def split: if_splits prod.splits option.splits)

lemma headCommit_after_remote:
  assumes "headCommit p = Inr (h, p1)" and "remoteDefaultCommit p1 = Inr (c, p2)"
  shows "headCommit p2 = Inr (h, p2)"
proof -
  from headCommit_again [OF assms(1)]
  have h1: "headCommit p1 = Inr (h, p1)" and memo: "git_headCommit p1 = h"
    by simp_all
  from remoteDefaultCommit_again [OF assms(2)]
  have same: "git_wrapper p2 = git_wrapper p1" "git_headCommit p2 = git_headCommit p1"
    by simp_all
  have written: "p2\<lparr>git_headCommit := h\<rparr> = p2"
    using memo same(2) by (cases p2) simp
  from h1 same memo written show ?thesis
    by (auto simp: headCommit_def split: if_splits prod.splits option.splits)
qed

text \<open>
  C4 (as stated). The HEAD-freshness check succeeds iff the merge-base query succeeds
  and gives the remote default commit, and in every other case fails with the
  out-of-date error. It does not in every other case: with the remote unreachable the
  remote default commit cannot be fetched and the check ends the process with a fatal
  log; it returns neither success nor the out-of-date error.
\<close>

theorem freshness_check_fatal_counterexample:
  "checkRemoteDefaultBranchIsReachable (mk_project origin_main offline_git)
     = Inl ''fetching remote commit of origin/main: could not resolve host''"
  by (simp add: checkRemoteDefaultBranchIsReachable_def headCommit_def
      remoteDefaultCommit_def mk_project_def origin_main_def offline_git_def
      feature_git_def)

text \<open>
  C4 (amended). When the HEAD commit and the remote default branch commit are available
  (memoized, or \<^verbatim>\<open>RevParse("HEAD")\<close> and \<^verbatim>\<open>FetchRemoteRev\<close> succeed), the check
  succeeds iff the merge-base query of the two commits succeeds and its result is the
  remote default branch commit itself, and in every other such case returns the
  out-of-date error; when one of the two commits cannot be obtained the check ends the
  process with a fatal log and returns nothing.
\<close>

theorem checkRemoteDefaultBranchIsReachable_outcomes:
  "checkRemoteDefaultBranchIsReachable p =
     (case headCommit p of
        Inl fatal \<Rightarrow> Inl fatal
      | Inr (h, p1) \<Rightarrow>
          (case remoteDefaultCommit p1 of
             Inl fatal \<Rightarrow> Inl fatal
           | Inr (c, p2) \<Rightarrow>
               Inr (if MergeBase (git_wrapper p) h c = (c, None) then None
                    else Some outOfDateErr, p2)))"
proof (cases "headCommit p")
  case (Inl fatal)
  then show ?thesis by (simp add: checkRemoteDefaultBranchIsReachable_def)
next
  case (Inr hp)
  obtain h p1 where hp: "hp = (h, p1)" by (cases hp)
  with Inr have h1: "headCommit p = Inr (h, p1)" by simp
  show ?thesis
  proof (cases "remoteDefaultCommit p1")
    case (Inl fatal)
    with h1 show ?thesis by (simp add: checkRemoteDefaultBranchIsReachable_def)
  next
    case (Inr cp)
    obtain c p2 where cp: "cp = (c, p2)" by (cases cp)
    with Inr have c1: "remoteDefaultCommit p1 = Inr (c, p2)" by simp
    have h2: "headCommit p2 = Inr (h, p2)"
      by (rule headCommit_after_remote [OF h1 c1])
    have c2: "remoteDefaultCommit p2 = Inr (c, p2)"
      using remoteDefaultCommit_again [OF c1] by simp
    have gw: "git_wrapper p2 = git_wrapper p"
      using remoteDefaultCommit_again [OF c1] headCommit_again [OF h1] by simp
    show ?thesis
      by (cases "MergeBase (git_wrapper p) h c")
        (auto simp: checkRemoteDefaultBranchIsReachable_def h1 c1 h2 c2 gw
          split: option.splits)
  qed
qed

subsection \<open>The status filter\<close>






lemma TagFilter_no_tags:
  "include_tags c = {} \<Longrightarrow> exclude_tags c = {} \<Longrightarrow> TagFilter c stacks = stacks"
  by (simp add: TagFilter_def)





text \<open>
  C5. A local stack whose \<open>metaID\<close> is empty never appears in an unhealthy-filtered
  result, whatever the remote status data, the repository and the tag criteria are, and
  it does appear in the unfiltered default listing, where no status flag is given.
\<close>

theorem stack_without_metaID_listing:
  assumes "metaID s = ''''" and "s \<in> set stacks"
  shows "(\<forall>c result. status_filter c = Some ''unhealthy'' \<and>
            outcome (StackSelector c repo cloud stacks) = Inr result \<longrightarrow> s \<notin> set result) \<and>
         (\<exists>result. outcome (StackSelector no_filter repo cloud stacks) = Inr result \<and>
            s \<in> set result)"
proof (intro conjI allI impI)
  fix c result
  assume a: "status_filter c = Some ''unhealthy'' \<and>
      outcome (StackSelector c repo cloud stacks) = Inr result"
  have "\<not> unhealthy lookup s" for lookup
    using assms(1) by (simp add: unhealthy_def)
  with a show "s \<notin> set result"
    by (auto simp: StackSelector_def CloudHealthFilter_def Let_def
        split: option.splits sum.splits)
next
  from assms(2)
  show "\<exists>result. outcome (StackSelector no_filter repo cloud stacks) = Inr result \<and>
      s \<in> set result"
    by (simp add: StackSelector_def no_filter_def TagFilter_def)
qed

theorem stack_without_metaID_listing_witness:
  "metaID stack_without_id = '''' \<and> stack_without_id \<in> set [s1, s2, stack_without_id] \<and>
   outcome (StackSelector unhealthy_filter this_repo (Inr [s1_failed, s2_drifted])
     [s1, s2, stack_without_id]) = Inr [s1, s2] \<and>
   stack_without_id \<notin> set [s1, s2] \<and>
   (\<exists>result. outcome (StackSelector no_filter this_repo (Inr [s1_failed, s2_drifted])
       [s1, s2, stack_without_id]) = Inr result \<and> stack_without_id \<in> set result)"
proof -
  have no_id: "metaID stack_without_id = ''''"
    by (simp add: stack_without_id_def)
  have local: "stack_without_id \<in> set [s1, s2, stack_without_id]"
    by simp
  have run: "outcome (StackSelector unhealthy_filter this_repo (Inr [s1_failed, s2_drifted])
      [s1, s2, stack_without_id]) = Inr [s1, s2]"
    by (simp add: StackSelector_def unhealthy_filter_def this_repo_def TagFilter_def
        CloudHealthFilter_def build_lookup_def unhealthy_def check_status_filter_def
        s1_def s2_def stack_without_id_def s1_failed_def s2_drifted_def)
  note both = stack_without_metaID_listing [OF no_id local,
      of this_repo "Inr [s1_failed, s2_drifted]"]
  have active: "status_filter unhealthy_filter = Some ''unhealthy''"
    by (simp add: unhealthy_filter_def)
  from both [THEN conjunct1, rule_format, of unhealthy_filter "[s1, s2]"] active run
  have absent: "stack_without_id \<notin> set [s1, s2]" by blast
  from no_id local run absent both [THEN conjunct2] show ?thesis by blast
qed

text \<open>
  C6. Every explicitly supplied status filter value other than \<open>unhealthy\<close> is rejected
  with the message \<open>only unhealthy filter allowed\<close> on standard error and exit code 1,
  whatever the repository, the remote data and the stacks are, and before the status
  source is asked; \<open>unhealthy\<close> is accepted: against a git-tracked remote whose status
  source answers, the command exits with code 0.
\<close>

theorem only_unhealthy_filter_allowed:
  assumes "status_filter c = Some v"
  shows "(v \<noteq> ''unhealthy'' \<longrightarrow>
            list_command c repo cloud stacks =
              \<lparr>exit_status = 1, stdout = '''', stderr = ''only unhealthy filter allowed''\<rparr> \<and>
            \<not> fetched (StackSelector c repo cloud stacks)) \<and>
         (v = ''unhealthy'' \<longrightarrow>
            exit_status (list_command c (Tracked r) (Inr records) stacks) = 0 \<and>
            fetched (StackSelector c (Tracked r) (Inr records) stacks))"
  using assms
  by (simp add: list_command_def StackSelector_def check_status_filter_def
      error_message_def)

theorem only_unhealthy_filter_allowed_witness:
  "status_filter (unhealthy_filter\<lparr>status_filter := Some ''drifted''\<rparr>) = Some ''drifted'' \<and>
   ''drifted'' \<noteq> ''unhealthy'' \<and>
   list_command (unhealthy_filter\<lparr>status_filter := Some ''drifted''\<rparr>) FilesystemOnly
       (Inr [s1_failed]) [s1] =
     \<lparr>exit_status = 1, stdout = '''', stderr = ''only unhealthy filter allowed''\<rparr> \<and>
   exit_status (list_command unhealthy_filter this_repo (Inr [s1_failed]) [s1]) = 0"
proof -
  have drifted:
    "status_filter (unhealthy_filter\<lparr>status_filter := Some ''drifted''\<rparr>) = Some ''drifted''"
    by simp
  have other: "''drifted'' \<noteq> ''unhealthy''" by simp
  have active: "status_filter unhealthy_filter = Some ''unhealthy''"
    by (simp add: unhealthy_filter_def)
  from only_unhealthy_filter_allowed [OF drifted, of FilesystemOnly "Inr [s1_failed]" "[s1]",
      THEN conjunct1] other
  have rejected:
    "list_command (unhealthy_filter\<lparr>status_filter := Some ''drifted''\<rparr>) FilesystemOnly
       (Inr [s1_failed]) [s1] =
     \<lparr>exit_status = 1, stdout = '''', stderr = ''only unhealthy filter allowed''\<rparr>"
    by blast
  from only_unhealthy_filter_allowed [OF active, THEN conjunct2,
      of "''github.com/terramate-io/terramate''" "[s1_failed]" "[s1]"]
  have accepted:
    "exit_status (list_command unhealthy_filter this_repo (Inr [s1_failed]) [s1]) = 0"
    by (simp add: this_repo_def)
  from drifted other rejected accepted show ?thesis by blast
qed

subsection \<open>Ordering of the output\<close>







end
